theory Spec2Isabelle
  imports Complex_Main
begin

section \<open>Residual forecaster of curvefit (forecaster.py)\<close>

text \<open>
  A shallow embedding of \<^verbatim>\<open>src/curvefit/forecaster.py\<close>: the classes
  \<^verbatim>\<open>LinearResidualModel\<close> and \<^verbatim>\<open>Forecaster\<close>.

  Conventions of the embedding.
  \<^item> numpy's float64 numbers are idealised as \<open>real\<close>; the statements proved below
    are about the structure of the tables and about order and algebra of the values,
    none is about rounding.
  \<^item> A pandas data frame is the ordered list of its columns, each a name with the list
    of its cells; every column of a frame has as many cells as the frame has rows.
  \<^item> A raised Python exception is the \<open>Inl\<close> of a result; the object a method mutates
    is returned next to the result.
  \<^item> \<^verbatim>\<open>np.linalg.inv\<close> and the draws of the random generator are library
    behaviour, taken as parameters.
\<close>

subsection \<open>Exceptions and results\<close>

datatype py_error = KeyError | ValueError | TypeError | AttributeError | LinAlgError

fun and_then :: "py_error + 'a \<Rightarrow> ('a \<Rightarrow> py_error + 'b) \<Rightarrow> py_error + 'b" where
  "and_then (Inl e) f = Inl e"
| "and_then (Inr x) f = f x"

fun sequence_results :: "(py_error + 'a) list \<Rightarrow> py_error + 'a list" where
  "sequence_results [] = Inr []"
| "sequence_results (r # rs) =
     (case r of
        Inl e \<Rightarrow> Inl e
      | Inr x \<Rightarrow> (case sequence_results rs of Inl e \<Rightarrow> Inl e | Inr xs \<Rightarrow> Inr (x # xs)))"

subsection \<open>Data frames\<close>

type_synonym 'a dataframe = "(string \<times> 'a list) list"

definition nrows :: "'a dataframe \<Rightarrow> nat" where
  "nrows df = (case df of [] \<Rightarrow> 0 | (name, col) # rest \<Rightarrow> length col)"

text \<open>\<^verbatim>\<open>df[name] = values\<close>: an existing column is replaced where it stands, a new one
  is appended as the last column.\<close>

fun set_column :: "string \<Rightarrow> 'a list \<Rightarrow> 'a dataframe \<Rightarrow> 'a dataframe" where
  "set_column name vals [] = [(name, vals)]"
| "set_column name vals ((n, col) # df) =
     (if n = name then (n, vals) # df else (n, col) # set_column name vals df)"

text \<open>\<^verbatim>\<open>df[[n1, n2, ...]]\<close>: the named columns in the order asked for; a name that is
  not a column raises \<^verbatim>\<open>KeyError\<close>.\<close>

fun get_columns :: "'a dataframe \<Rightarrow> string list \<Rightarrow> py_error + 'a list list" where
  "get_columns df [] = Inr []"
| "get_columns df (n # ns) =
     (case map_of df n of
        None \<Rightarrow> Inl KeyError
      | Some col \<Rightarrow> (case get_columns df ns of Inl e \<Rightarrow> Inl e | Inr cols \<Rightarrow> Inr (col # cols)))"

text \<open>\<^verbatim>\<open>np.asarray\<close> of selected columns: the matrix whose \<open>i\<close>-th row holds the
  \<open>i\<close>-th cell of each column.\<close>

definition as_rows :: "nat \<Rightarrow> 'a list list \<Rightarrow> 'a list list" where
  "as_rows n cols = map (\<lambda>i. map (\<lambda>col. col ! i) cols) [0..<n]"

subsection \<open>Cells of the prediction grid\<close>

text \<open>
  A cell of the grid is a number or, in a column of dtype object, a one-dimensional
  array (\<^verbatim>\<open>simulate\<close> passes such a cell, see below). Arithmetic on cells is
  numpy's: a number is broadcast over an array, two arrays of different lengths (neither
  of length one) raise \<^verbatim>\<open>ValueError\<close>.
\<close>

datatype cell = Num real | Arr "real list"

fun cell_mul :: "cell \<Rightarrow> real \<Rightarrow> cell" where
  "cell_mul (Num x) c = Num (x * c)"
| "cell_mul (Arr xs) c = Arr (map (\<lambda>x. x * c) xs)"

fun cell_add :: "cell \<Rightarrow> cell \<Rightarrow> py_error + cell" where
  "cell_add (Num x) (Num y) = Inr (Num (x + y))"
| "cell_add (Num x) (Arr ys) = Inr (Arr (map (\<lambda>y. x + y) ys))"
| "cell_add (Arr xs) (Num y) = Inr (Arr (map (\<lambda>x. x + y) xs))"
| "cell_add (Arr xs) (Arr ys) =
     (if length xs = length ys then Inr (Arr (map2 (+) xs ys))
      else if length xs = 1 then Inr (Arr (map (\<lambda>y. hd xs + y) ys))
      else if length ys = 1 then Inr (Arr (map (\<lambda>x. x + hd ys) xs))
      else Inl ValueError)"

text \<open>One entry of \<^verbatim>\<open>pred.dot(coef)\<close>: the products of a row with the coefficients,
  summed from the left.\<close>

fun row_dot_acc :: "cell \<Rightarrow> cell list \<Rightarrow> real list \<Rightarrow> py_error + cell" where
  "row_dot_acc acc (x # xs) (c # cs) =
     (case cell_add acc (cell_mul x c) of
        Inl e \<Rightarrow> Inl e
      | Inr acc' \<Rightarrow> row_dot_acc acc' xs cs)"
| "row_dot_acc acc xs cs = Inr acc"

fun row_dot :: "cell list \<Rightarrow> real list \<Rightarrow> py_error + cell" where
  "row_dot (x # xs) (c # cs) = row_dot_acc (cell_mul x c) xs cs"
| "row_dot xs cs = Inr (Num 0)"

subsection \<open>Matrices of numbers\<close>

definition dot :: "real list \<Rightarrow> real list \<Rightarrow> real" where
  "dot xs ys = sum_list (map2 (*) xs ys)"

text \<open>\<^verbatim>\<open>pred.T.dot(pred)\<close>, from the columns of \<^verbatim>\<open>pred\<close>.\<close>

definition gram :: "real list list \<Rightarrow> real list list" where
  "gram cols = map (\<lambda>a. map (\<lambda>b. dot a b) cols) cols"

subsection \<open>LinearResidualModel\<close>

record LinearResidualModel =
  data :: "real dataframe"
  outcome :: string
  covariates :: "string list"
  coef :: "real list option"

text \<open>\<^verbatim>\<open>ResidualModel.__init__\<close>: the fields are stored, \<^verbatim>\<open>coef\<close> is
  \<^verbatim>\<open>None\<close>. The two assertions on the types of \<^verbatim>\<open>outcome\<close> and
  \<^verbatim>\<open>covariates\<close> hold by typing.\<close>

definition LinearResidualModel_init ::
  "real dataframe \<Rightarrow> string \<Rightarrow> string list \<Rightarrow> LinearResidualModel" where
  "LinearResidualModel_init d out covs =
     \<lparr>data = d, outcome = out, covariates = covs, coef = None\<rparr>"

text \<open>
  \<^verbatim>\<open>LinearResidualModel.fit\<close>. The frame is copied, so the stored data keep their
  columns. \<open>predT\<close> holds the columns of \<^verbatim>\<open>pred\<close>, that is the rows of
  \<^verbatim>\<open>pred.T\<close>. The product is taken in the order the source writes it:
  \<^verbatim>\<open>inv(pred.T.dot(pred))\<close>, then \<^verbatim>\<open>.dot(pred.T)\<close>, then \<^verbatim>\<open>.dot(out)\<close>.
  \<open>linalg_inv\<close> stands for \<^verbatim>\<open>np.linalg.inv\<close>; a result whose rows do not
  have one entry per row of \<^verbatim>\<open>pred.T\<close> cannot be multiplied
  (\<^verbatim>\<open>ValueError\<close>).
\<close>

definition LinearResidualModel_fit ::
  "(real list list \<Rightarrow> py_error + real list list) \<Rightarrow> LinearResidualModel
    \<Rightarrow> py_error + LinearResidualModel" where
  "LinearResidualModel_fit linalg_inv self =
     (let df = set_column ''intercept'' (replicate (nrows (data self)) 1) (data self) in
      and_then (get_columns df (''intercept'' # covariates self)) (\<lambda>predT.
      and_then (get_columns df [outcome self]) (\<lambda>outT.
      and_then (linalg_inv (gram predT)) (\<lambda>inverse_gram.
        if list_all (\<lambda>row. length row = length predT) inverse_gram then
          Inr (self\<lparr>coef := Some
            (map (\<lambda>row. dot row (hd outT))
              (map (\<lambda>row. map (dot row) (as_rows (nrows df) predT)) inverse_gram))\<rparr>)
        else Inl ValueError))))"

text \<open>
  \<^verbatim>\<open>LinearResidualModel.predict(df)\<close>. The assignment
  \<^verbatim>\<open>df['intercept'] = 1\<close> changes the caller's frame, which is returned as the
  second component whatever the outcome. With \<^verbatim>\<open>coef\<close> still \<^verbatim>\<open>None\<close> the
  product with \<^verbatim>\<open>None\<close> raises \<^verbatim>\<open>TypeError\<close>; a coefficient vector of
  the wrong length raises \<^verbatim>\<open>ValueError\<close> (shapes not aligned).
\<close>

definition LinearResidualModel_predict ::
  "LinearResidualModel \<Rightarrow> cell dataframe \<Rightarrow> (py_error + cell list) \<times> cell dataframe" where
  "LinearResidualModel_predict self df =
     (let df' = set_column ''intercept'' (replicate (nrows df) (Num 1)) df in
      (and_then (get_columns df' (''intercept'' # covariates self)) (\<lambda>pred.
         case coef self of
           None \<Rightarrow> Inl TypeError
         | Some c \<Rightarrow>
             if length pred = length c
             then sequence_results (map (\<lambda>row. row_dot row c) (as_rows (nrows df') pred))
             else Inl ValueError),
       df'))"

subsection \<open>Forecaster\<close>

record Forecaster =
  mean_residual_model :: "LinearResidualModel option"
  std_residual_model :: "LinearResidualModel option"

definition Forecaster_init :: Forecaster where
  "Forecaster_init = \<lparr>mean_residual_model = None, std_residual_model = None\<rparr>"

text \<open>
  \<^verbatim>\<open>Forecaster.fit_residuals\<close>. Both models are stored on the forecaster before
  either is fitted; an exception of the first \<^verbatim>\<open>fit\<close> leaves both stored and
  unfitted, one of the second leaves the mean model fitted. Any other model type raises
  \<^verbatim>\<open>ValueError\<close> in the \<^verbatim>\<open>else\<close> branch, before either assignment.
\<close>

definition fit_residuals ::
  "(real list list \<Rightarrow> py_error + real list list) \<Rightarrow> Forecaster \<Rightarrow> real dataframe \<Rightarrow> string
    \<Rightarrow> string \<Rightarrow> string list \<Rightarrow> string \<Rightarrow> (py_error + unit) \<times> Forecaster" where
  "fit_residuals linalg_inv self residual_data mean_col std_col residual_covariates
      residual_model_type =
     (if residual_model_type = ''linear'' then
        (let mean_model = LinearResidualModel_init residual_data mean_col residual_covariates;
             std_model = LinearResidualModel_init residual_data std_col residual_covariates;
             self1 = self\<lparr>mean_residual_model := Some mean_model,
                          std_residual_model := Some std_model\<rparr>
         in case LinearResidualModel_fit linalg_inv mean_model of
              Inl e \<Rightarrow> (Inl e, self1)
            | Inr mean_fitted \<Rightarrow>
                (let self2 = self1\<lparr>mean_residual_model := Some mean_fitted\<rparr>
                 in case LinearResidualModel_fit linalg_inv std_model of
                      Inl e \<Rightarrow> (Inl e, self2)
                    | Inr std_fitted \<Rightarrow>
                        (Inr (), self2\<lparr>std_residual_model := Some std_fitted\<rparr>)))
      else (Inl ValueError, self))"

text \<open>
  \<^verbatim>\<open>Forecaster.predict\<close>. \<^verbatim>\<open>itertools.product\<close> runs over
  \<^verbatim>\<open>far_out\<close> in the outer loop and \<^verbatim>\<open>num_data\<close> in the inner one, as
  \<open>List.product\<close> does. A model that is still \<^verbatim>\<open>None\<close> has no
  \<^verbatim>\<open>predict\<close> attribute (\<^verbatim>\<open>AttributeError\<close>). The frame the mean model's
  \<^verbatim>\<open>predict\<close> has changed is the one that gets the new columns.
\<close>

definition predict :: "Forecaster \<Rightarrow> cell list \<Rightarrow> cell list \<Rightarrow> py_error + cell dataframe" where
  "predict self far_out num_data =
     (let rows = List.product far_out num_data;
          new_data = [(''far_out'', map fst rows), (''num_data'', map snd rows)]
      in case mean_residual_model self of
           None \<Rightarrow> Inl AttributeError
         | Some mean_model \<Rightarrow>
             (case LinearResidualModel_predict mean_model new_data of
                (Inl e, df1) \<Rightarrow> Inl e
              | (Inr residual_mean, df1) \<Rightarrow>
                  (let df2 = set_column ''residual_mean'' residual_mean df1
                   in case std_residual_model self of
                        None \<Rightarrow> Inl AttributeError
                      | Some std_model \<Rightarrow>
                          (case LinearResidualModel_predict std_model df2 of
                             (Inl e, df3) \<Rightarrow> Inl e
                           | (Inr residual_std, df3) \<Rightarrow>
                               Inr (set_column ''residual_std'' residual_std df3)))))"

subsection \<open>The model pipeline, as simulate reads it\<close>

text \<open>
  \<^verbatim>\<open>mp.all_data\<close> is a frame with the columns \<^verbatim>\<open>mp.col_t\<close>,
  \<^verbatim>\<open>mp.col_group\<close>, \<^verbatim>\<open>mp.col_obs\<close> and \<^verbatim>\<open>mp.col_obs_compare\<close>; it is
  modelled by the list of its rows. The two observation columns may hold nulls
  (\<open>None\<close>, numpy's NaN). \<^verbatim>\<open>mp.predict\<close> belongs to the pipeline, which is not
  part of this file: it is a field of the record, called with the forecast times and the
  group (\<^verbatim>\<open>predict_space\<close> is the pipeline's own attribute).
\<close>

record observation =
  col_t :: real
  col_group :: string
  col_obs :: "real option"
  col_obs_compare :: "real option"

record ModelPipeline =
  all_data :: "observation list"
  pipeline_predict :: "real option list \<Rightarrow> string \<Rightarrow> py_error + real list"

text \<open>\<^verbatim>\<open>Series.max()\<close>: NaN for a column with no rows.\<close>

fun series_max :: "real list \<Rightarrow> real option" where
  "series_max [] = None"
| "series_max (x # xs) = Some (foldl max x xs)"

text \<open>\<^verbatim>\<open>DataFrame.count()\<close>: a Series with one entry per column, the number of
  cells of that column that are not null (in the order t, group, obs, obs_compare).\<close>

definition frame_count :: "observation list \<Rightarrow> nat list" where
  "frame_count rows =
     [length rows,
      length rows,
      length (filter (\<lambda>r. col_obs r \<noteq> None) rows),
      length (filter (\<lambda>r. col_obs_compare r \<noteq> None) rows)]"

text \<open>
  The two sibling helpers of the class, \<^verbatim>\<open>get_max_t_per_group\<close> and
  \<^verbatim>\<open>get_num_obs_per_group\<close>, over the rows they read. Both first drop the rows
  whose observation is null (\<^verbatim>\<open>non_nulls\<close>), then group; the dictionary they
  return has a key for every group that keeps a row.
\<close>

definition get_max_t_per_group :: "observation list \<Rightarrow> string \<Rightarrow> real option" where
  "get_max_t_per_group rows =
     (\<lambda>grp. series_max (map col_t
        (filter (\<lambda>r. col_group r = grp) (filter (\<lambda>r. col_obs r \<noteq> None) rows))))"

definition get_num_obs_per_group :: "observation list \<Rightarrow> string \<Rightarrow> nat option" where
  "get_num_obs_per_group rows =
     (\<lambda>grp.
        (let n = length (filter (\<lambda>r. col_group r = grp)
                   (filter (\<lambda>r. col_obs r \<noteq> None) rows))
         in if n = 0 then None else Some n))"

subsection \<open>numpy: broadcasting and the normal sampler\<close>

text \<open>Two lengths broadcast to a common one when they are equal or one of them is 1.\<close>

definition broadcast_width :: "nat \<Rightarrow> nat \<Rightarrow> py_error + nat" where
  "broadcast_width m h =
     (if m = h then Inr h else if m = 1 then Inr h else if h = 1 then Inr m
      else Inl ValueError)"

definition stretch :: "nat \<Rightarrow> 'a list \<Rightarrow> 'a list" where
  "stretch w xs = (if length xs = w then xs else replicate w (hd xs))"

text \<open>A one-dimensional array combined with every row of a matrix, both stretched to
  the common width \<open>w\<close>.\<close>

definition vec_op_mat ::
  "(real \<Rightarrow> real \<Rightarrow> real) \<Rightarrow> nat \<Rightarrow> real list \<Rightarrow> real list list \<Rightarrow> real list list" where
  "vec_op_mat f w v mat = map (\<lambda>row. map2 f (stretch w v) (stretch w row)) mat"

text \<open>A cell cast by numpy to float64: an array cell makes the column one of dtype
  object, which the sampler cannot cast (\<^verbatim>\<open>TypeError\<close>).\<close>

fun as_float :: "cell \<Rightarrow> py_error + real" where
  "as_float (Num x) = Inr x"
| "as_float (Arr xs) = Inl TypeError"

text \<open>
  \<^verbatim>\<open>np.random.normal(loc, scale, size=(n, h))\<close>, as \<^verbatim>\<open>simulate\<close> calls it on
  the columns of the grid. The generator's state is made explicit: \<open>z i j\<close> is the
  standard normal variate it draws for entry \<open>(i, j)\<close>, and the sample is
  \<open>loc + scale * z\<close>, with \<open>loc\<close> and \<open>scale\<close> broadcast along the rows. The columns
  of a grid without rows have dtype object, as a column with array cells has, and the
  cast to float64 fails (\<^verbatim>\<open>TypeError\<close>). A negative scale, a negative size, or a
  \<open>loc\<close> or \<open>scale\<close> that does not broadcast to \<open>h\<close> raise \<^verbatim>\<open>ValueError\<close>.
\<close>

definition random_normal ::
  "(nat \<Rightarrow> nat \<Rightarrow> real) \<Rightarrow> cell list \<Rightarrow> real list \<Rightarrow> int \<Rightarrow> int \<Rightarrow> py_error + real list list" where
  "random_normal z loc scale n h =
     (if loc = [] \<or> scale = [] then Inl TypeError
      else
       and_then (sequence_results (map as_float loc)) (\<lambda>loc'.
         if list_ex (\<lambda>s. s < 0) scale \<or> n < 0 \<or> h < 0 then Inl ValueError
         else if (length loc' = nat h \<or> length loc' = 1)
              \<and> (length scale = nat h \<or> length scale = 1)
         then Inr (map (\<lambda>i. map (\<lambda>(j, l, s). l + s * z i j)
                     (zip [0..<nat h] (zip (stretch (nat h) loc') (stretch (nat h) scale))))
                   [0..<nat n])
         else Inl ValueError))"

subsection \<open>Forecaster.simulate\<close>

text \<open>\<^verbatim>\<open>residuals['residual_std'].apply(lambda x: max(x, epsilon))\<close> on one cell.
  Python's \<^verbatim>\<open>max(x, epsilon)\<close> is \<^verbatim>\<open>epsilon\<close> when \<^verbatim>\<open>epsilon > x\<close> and
  \<^verbatim>\<open>x\<close> otherwise. For an array cell the comparison gives an array, which has no
  truth value (\<^verbatim>\<open>ValueError\<close>); an array cell here holds the counts of
  \<^verbatim>\<open>num_obs\<close>, one per column of the data.\<close>

fun floor_std :: "real \<Rightarrow> cell \<Rightarrow> py_error + real" where
  "floor_std epsilon (Num x) = Inr (if epsilon > x then epsilon else x)"
| "floor_std epsilon (Arr xs) = Inl ValueError"

definition get_column :: "'a dataframe \<Rightarrow> string \<Rightarrow> py_error + 'a list" where
  "get_column df name = (case map_of df name of None \<Rightarrow> Inl KeyError | Some col \<Rightarrow> Inr col)"

text \<open>
  The local variables of \<^verbatim>\<open>simulate\<close> after line 204. Lines 206 to 222 are not
  modelled: the call \<^verbatim>\<open>data_translator(data= )\<close> is written without its argument,
  and the loop hands the arrays below, unchanged from one draw to the next, to
  \<^verbatim>\<open>pd.concat\<close>; these arrays are the columns of every table the loop asks for.
\<close>

record simulate_vars =
  v_max_t :: "real option"
  v_num_obs :: "nat list"
  v_num_out :: "real list"
  v_forecast_times :: "real option list"
  v_observations :: "real option list"
  v_all_times :: "real option list"
  v_mean_pred :: "real list"
  v_residuals :: "cell dataframe"
  v_std_residual :: "real list"
  v_error :: "real list list"
  v_forecast_data :: "real list list"
  v_new_observations :: "real option list"
  v_simulated_flag :: "nat list"

text \<open>
  \<^verbatim>\<open>Forecaster.simulate\<close>, lines 175 to 204, in the order of the source.
  \<^verbatim>\<open>max_t\<close> is the maximum of the time column over all rows of the group;
  \<^verbatim>\<open>num_obs\<close> is \<^verbatim>\<open>count()\<close> of a frame, hence a Series, and
  \<^verbatim>\<open>np.array([num_obs])\<close> a matrix with one row, which
  \<^verbatim>\<open>itertools.product\<close> hands to the grid as one array cell.
  \<^verbatim>\<open>np.append\<close> flattens the matrix \<^verbatim>\<open>forecast_data\<close>, and
  \<^verbatim>\<open>len(forecast_data)\<close> is the number of its rows.
\<close>

definition simulate ::
  "Forecaster \<Rightarrow> ModelPipeline \<Rightarrow> int \<Rightarrow> int \<Rightarrow> string \<Rightarrow> real \<Rightarrow> (nat \<Rightarrow> nat \<Rightarrow> real)
    \<Rightarrow> py_error + simulate_vars" where
  "simulate self mp far_out num_simulations grp epsilon z =
     (let rows = filter (\<lambda>r. col_group r = grp) (all_data mp);
          max_t = series_max (map col_t rows);
          num_obs = frame_count (filter (\<lambda>r. col_obs_compare r \<noteq> None) rows);
          num_out = map (\<lambda>k. real k + 1) [0..<nat far_out];
          forecast_times = map (\<lambda>k. map_option (\<lambda>t. t + k) max_t) num_out;
          observations = map col_obs_compare rows;
          obs_times = map col_t rows;
          all_times = map Some obs_times @ forecast_times
      in
      and_then (pipeline_predict mp forecast_times grp) (\<lambda>mean_pred.
      and_then (predict self (map Num num_out) [Arr (map real num_obs)]) (\<lambda>residuals.
      and_then (get_column residuals ''residual_mean'') (\<lambda>mean_residual.
      and_then (get_column residuals ''residual_std'') (\<lambda>residual_std.
      and_then (sequence_results (map (floor_std epsilon) residual_std)) (\<lambda>std_residual.
      and_then (random_normal z mean_residual std_residual num_simulations far_out)
        (\<lambda>error.
      and_then (broadcast_width (length mean_pred) (nat far_out)) (\<lambda>w.
        (let forecast_data = vec_op_mat (+) w mean_pred (vec_op_mat (*) w mean_pred error)
         in Inr \<lparr>v_max_t = max_t,
                 v_num_obs = num_obs,
                 v_num_out = num_out,
                 v_forecast_times = forecast_times,
                 v_observations = observations,
                 v_all_times = all_times,
                 v_mean_pred = mean_pred,
                 v_residuals = residuals,
                 v_std_residual = std_residual,
                 v_error = error,
                 v_forecast_data = forecast_data,
                 v_new_observations = observations @ map Some (concat forecast_data),
                 v_simulated_flag =
                   replicate (length observations) 0 @ replicate (length forecast_data) 1
                \<rparr>)))))))))"

subsection \<open>The prediction grid in closed form\<close>

text \<open>
  The value of a grid column at the row of distance \<open>d\<close> and amount of data \<open>a\<close>, and
  the value a linear regression with coefficients \<open>c\<close> (intercept first) gives there:
  this is what the specification calls the regression's prediction.
\<close>

definition grid_value :: "real \<Rightarrow> real \<Rightarrow> string \<Rightarrow> real" where
  "grid_value d a name =
     (if name = ''far_out'' then d else if name = ''num_data'' then a else 1)"

definition regression_value :: "string list \<Rightarrow> real list \<Rightarrow> real \<Rightarrow> real \<Rightarrow> real" where
  "regression_value covs c d a = dot (1 # map (grid_value d a) covs) c"

subsection \<open>Regressions on the distance alone\<close>



subsection \<open>Concrete inputs\<close>

text \<open>A fitted forecaster whose regressions use both grid columns.\<close>

definition example_mean_model :: LinearResidualModel where
  "example_mean_model =
     \<lparr>data = [], outcome = ''residual_mean'', covariates = [''far_out'', ''num_data''],
      coef = Some [1, 2, 3]\<rparr>"

definition example_std_model :: LinearResidualModel where
  "example_std_model =
     \<lparr>data = [], outcome = ''residual_std'', covariates = [''num_data''],
      coef = Some [0, 1 / 10]\<rparr>"

definition example_forecaster :: Forecaster where
  "example_forecaster =
     \<lparr>mean_residual_model = Some example_mean_model,
      std_residual_model = Some example_std_model\<rparr>"

definition example_grid :: "cell dataframe" where
  "example_grid =
     [(''far_out'', [Num 1, Num 2, Num 3]),
      (''num_data'', [Num 10, Num 10, Num 10]),
      (''intercept'', [Num 1, Num 1, Num 1]),
      (''residual_mean'', [Num 33, Num 35, Num 37]),
      (''residual_std'', [Num 1, Num 1, Num 1])]"

text \<open>
  A fitted forecaster whose regressions use the distance only, a pipeline with two rows
  of group \<open>A\<close> (the later one without an observation) whose mean forecast is 0 at time
  3 and 10 elsewhere, and a generator that draws 1 everywhere. The two records are the
  local variables of \<^verbatim>\<open>simulate\<close> for group \<open>A\<close> and for the absent group
  \<open>B\<close>, with three steps ahead and two simulations.
\<close>

definition example_mean_model_far_out :: LinearResidualModel where
  "example_mean_model_far_out =
     \<lparr>data = [], outcome = ''residual_mean'', covariates = [''far_out''],
      coef = Some [0, 1 / 10]\<rparr>"

definition example_std_model_far_out :: LinearResidualModel where
  "example_std_model_far_out =
     \<lparr>data = [], outcome = ''residual_std'', covariates = [''far_out''],
      coef = Some [1 / 2, - (1 / 4)]\<rparr>"

definition example_forecaster_far_out :: Forecaster where
  "example_forecaster_far_out =
     \<lparr>mean_residual_model = Some example_mean_model_far_out,
      std_residual_model = Some example_std_model_far_out\<rparr>"

definition example_pipeline :: ModelPipeline where
  "example_pipeline =
     \<lparr>all_data =
        [\<lparr>col_t = 1, col_group = ''A'', col_obs = Some 5, col_obs_compare = Some 5\<rparr>,
         \<lparr>col_t = 2, col_group = ''A'', col_obs = None, col_obs_compare = None\<rparr>],
      pipeline_predict =
        (\<lambda>times grp. Inr (map (\<lambda>t. if t = Some 3 then 0 else 10) times))\<rparr>"


definition example_draws :: "nat \<Rightarrow> nat \<Rightarrow> real" where
  "example_draws i j = 1"

definition example_simulation :: simulate_vars where
  "example_simulation =
     \<lparr>v_max_t = Some 2, v_num_obs = [1, 1, 1, 1], v_num_out = [1, 2, 3],
        v_forecast_times = [Some 3, Some 4, Some 5],
        v_observations = [Some 5, None],
        v_all_times = [Some 1, Some 2, Some 3, Some 4, Some 5],
        v_mean_pred = [0, 10, 10],
        v_residuals =
          [(''far_out'', [Num 1, Num 2, Num 3]),
           (''num_data'',
            [Arr [1, 1, 1, 1], Arr [1, 1, 1, 1], Arr [1, 1, 1, 1]]),
           (''intercept'', [Num 1, Num 1, Num 1]),
           (''residual_mean'', [Num (1 / 10), Num (1 / 5), Num (3 / 10)]),
           (''residual_std'', [Num (1 / 4), Num 0, Num (- (1 / 4))])],
        v_std_residual = [1 / 4, 1 / 1000, 1 / 1000],
        v_error =
          [[7 / 20, 201 / 1000, 301 / 1000],
           [7 / 20, 201 / 1000, 301 / 1000]],
        v_forecast_data =
          [[0, 1201 / 100, 1301 / 100],
           [0, 1201 / 100, 1301 / 100]],
        v_new_observations =
          [Some 5, None, Some 0, Some (1201 / 100),
           Some (1301 / 100), Some 0, Some (1201 / 100),
           Some (1301 / 100)],
        v_simulated_flag = [0, 0, 1, 1]\<rparr>"


section \<open>Properties\<close>

lemma and_then_Inr_iff:
  "and_then r f = Inr y \<longleftrightarrow> (\<exists>x. r = Inr x \<and> f x = Inr y)"
  by (cases r) auto

subsection \<open>Helper lemmas\<close>

lemma dot_Cons: "dot (x # xs) (c # cs) = x * c + dot xs cs"
  by (simp add: dot_def)

lemma dot_Nil: "dot [] cs = 0"
  by (simp add: dot_def)

lemma row_dot_acc_Num:
  "length xs = length cs \<Longrightarrow> row_dot_acc (Num a) (map Num xs) cs = Inr (Num (a + dot xs cs))"
proof (induction xs arbitrary: cs a)
  case Nil
  then show ?case by (simp add: dot_Nil)
next
  case (Cons x xs)
  then obtain c cs' where cs: "cs = c # cs'" by (cases cs) auto
  with Cons show ?case by (simp add: dot_Cons add.assoc)
qed

lemma row_dot_Num:
  "length xs = length cs \<Longrightarrow> row_dot (map Num xs) cs = Inr (Num (dot xs cs))"
proof (cases xs)
  case Nil
  then show ?thesis by (simp add: dot_Nil)
next
  case (Cons x xs')
  assume len: "length xs = length cs"
  with Cons obtain c cs' where cs: "cs = c # cs'" by (cases cs) auto
  with Cons len show ?thesis by (simp add: row_dot_acc_Num dot_Cons)
qed

lemma sequence_results_Inr: "sequence_results (map (\<lambda>x. Inr (f x)) xs) = Inr (map f xs)"
  by (induction xs) auto

lemma get_columns_grid:
  assumes A: "map_of df ''far_out'' = Some A" and B: "map_of df ''num_data'' = Some B"
    and C: "map_of df ''intercept'' = Some C"
    and names: "set names \<subseteq> {''far_out'', ''num_data'', ''intercept''}"
  shows "get_columns df names =
    Inr (map (\<lambda>name. if name = ''far_out'' then A else if name = ''num_data'' then B else C) names)"
  using names
proof (induction names)
  case Nil
  show ?case by simp
next
  case (Cons n ns)
  then have IH: "get_columns df ns =
    Inr (map (\<lambda>name. if name = ''far_out'' then A else if name = ''num_data'' then B else C) ns)"
    by simp
  from Cons.prems consider "n = ''far_out''" | "n = ''num_data''" | "n = ''intercept''"
    by auto
  then show ?case
  proof cases
    case 1
    then show ?thesis using A IH by simp
  next
    case 2
    then show ?thesis using B IH by simp
  next
    case 3
    then show ?thesis using C IH by simp
  qed
qed

lemma map_index: "map (\<lambda>i. f (xs ! i)) [0..<length xs] = map f xs"
  by (rule nth_equalityI) simp_all

lemma map_of_set_column_same: "map_of (set_column n v df) n = Some v"
  by (induction df) auto

lemma map_of_set_column_other: "n' \<noteq> n \<Longrightarrow> map_of (set_column n v df) n' = map_of df n'"
  by (induction df) auto

lemma nrows_set_column_replicate: "nrows (set_column n (replicate (nrows df) x) df) = nrows df"
  by (cases df) (auto simp: nrows_def)

lemma as_rows_pointwise:
  "as_rows (length P) (map (\<lambda>name. map (\<lambda>p. g name p) P) names) =
     map (\<lambda>p. map (\<lambda>name. g name p) names) P"
proof -
  have "as_rows (length P) (map (\<lambda>name. map (\<lambda>p. g name p) P) names) =
     map (\<lambda>i. (\<lambda>p. map (\<lambda>name. g name p) names) (P ! i)) [0..<length P]"
    by (simp add: as_rows_def)
  also have "\<dots> = map (\<lambda>p. map (\<lambda>name. g name p) names) P"
    by (rule map_index)
  finally show ?thesis .
qed

lemma LinearResidualModel_predict_grid:
  assumes cf: "coef m = Some c" and len: "length c = Suc (length (covariates m))"
    and covs: "set (covariates m) \<subseteq> {''far_out'', ''num_data'', ''intercept''}"
    and A: "map_of df ''far_out'' = Some (map (\<lambda>p. Num (fst p)) P)"
    and B: "map_of df ''num_data'' = Some (map (\<lambda>p. Num (snd p)) P)"
    and n: "nrows df = length P"
  shows "LinearResidualModel_predict m df =
    (Inr (map (\<lambda>p. Num (regression_value (covariates m) c (fst p) (snd p))) P),
     set_column ''intercept'' (replicate (length P) (Num 1)) df)"
proof -
  let ?df = "set_column ''intercept'' (replicate (length P) (Num 1)) df"
  let ?g = "\<lambda>name p. Num (grid_value (fst p) (snd p) name)"
  let ?names = "''intercept'' # covariates m"
  have A': "map_of ?df ''far_out'' = Some (map (?g ''far_out'') P)"
    using A by (simp add: map_of_set_column_other grid_value_def)
  have B': "map_of ?df ''num_data'' = Some (map (?g ''num_data'') P)"
    using B by (simp add: map_of_set_column_other grid_value_def)
  have C': "map_of ?df ''intercept'' = Some (map (?g ''intercept'') P)"
    by (simp add: map_of_set_column_same grid_value_def map_replicate_const)
  have names: "set ?names \<subseteq> {''far_out'', ''num_data'', ''intercept''}"
    using covs by simp
  have "get_columns ?df ?names =
    Inr (map (\<lambda>name. if name = ''far_out'' then map (?g ''far_out'') P
              else if name = ''num_data'' then map (?g ''num_data'') P
              else map (?g ''intercept'') P) ?names)"
    by (rule get_columns_grid [OF A' B' C' names])
  also have "map (\<lambda>name. if name = ''far_out'' then map (?g ''far_out'') P
              else if name = ''num_data'' then map (?g ''num_data'') P
              else map (?g ''intercept'') P) ?names = map (\<lambda>name. map (\<lambda>p. ?g name p) P) ?names"
    using names by (intro map_cong refl) (auto simp: grid_value_def)
  finally have cols: "get_columns ?df ?names = Inr (map (\<lambda>name. map (\<lambda>p. ?g name p) P) ?names)" .
  have rows: "as_rows (length P) (map (\<lambda>name. map (\<lambda>p. ?g name p) P) ?names) =
      map (\<lambda>p. map (\<lambda>name. ?g name p) ?names) P"
    by (rule as_rows_pointwise)
  have row: "row_dot (map (\<lambda>name. ?g name p) ?names) c =
      Inr (Num (regression_value (covariates m) c (fst p) (snd p)))" for p
  proof -
    have "map (\<lambda>name. ?g name p) ?names = map Num (map (grid_value (fst p) (snd p)) ?names)"
      by simp
    moreover have "length (map (grid_value (fst p) (snd p)) ?names) = length c"
      using len by simp
    ultimately have "row_dot (map (\<lambda>name. ?g name p) ?names) c =
        Inr (Num (dot (map (grid_value (fst p) (snd p)) ?names) c))"
      by (simp only: row_dot_Num)
    then show ?thesis by (simp add: regression_value_def grid_value_def)
  qed
  have nr: "nrows ?df = length P"
    using nrows_set_column_replicate [where n = "''intercept''" and x = "Num 1" and df = df] n by simp
  have len': "length (map (\<lambda>name. map (\<lambda>p. ?g name p) P) ?names) = length c"
    using len by simp
  have "sequence_results (map (\<lambda>r. row_dot r c) (map (\<lambda>p. map (\<lambda>name. ?g name p) ?names) P)) =
      Inr (map (\<lambda>p. Num (regression_value (covariates m) c (fst p) (snd p))) P)"
    by (simp only: map_map comp_def row sequence_results_Inr)
  then show ?thesis
    unfolding LinearResidualModel_predict_def Let_def n
    by (simp only: cols and_then.simps cf option.case nr rows len' refl if_True)
qed

lemma product_map_Num:
  "List.product (map f xs) (map g ys) = map (\<lambda>p. (f (fst p), g (snd p))) (List.product xs ys)"
  by (induction xs) (auto simp: comp_def)

lemma LinearResidualModel_predict_frame:
  "LinearResidualModel_predict m df = (r, df') \<Longrightarrow>
     df' = set_column ''intercept'' (replicate (nrows df) (Num 1)) df"
  by (simp add: LinearResidualModel_predict_def Let_def)


lemma example_predict:
  "predict example_forecaster (map Num [1, 2, 3]) (map Num [10]) = Inr example_grid"
  by (simp add: predict_def LinearResidualModel_predict_def example_forecaster_def
      example_mean_model_def example_std_model_def example_grid_def as_rows_def nrows_def
      upt_rec)

subsection \<open>simulate: helper lemmas\<close>

lemma example_residuals:
  "predict example_forecaster_far_out [Num 1, Num 2, Num 3] [Arr [1, 1, 1, 1]] =
     Inr [(''far_out'', [Num 1, Num 2, Num 3]),
           (''num_data'',
            [Arr [1, 1, 1, 1], Arr [1, 1, 1, 1], Arr [1, 1, 1, 1]]),
           (''intercept'', [Num 1, Num 1, Num 1]),
           (''residual_mean'', [Num (1 / 10), Num (1 / 5), Num (3 / 10)]),
           (''residual_std'', [Num (1 / 4), Num 0, Num (- (1 / 4))])]"
  by (simp add: predict_def LinearResidualModel_predict_def example_forecaster_far_out_def
      example_mean_model_far_out_def example_std_model_far_out_def as_rows_def nrows_def
      upt_rec)

lemma example_simulate:
  "simulate example_forecaster_far_out example_pipeline 3 2 ''A'' (1 / 1000) example_draws =
     Inr example_simulation"
  unfolding simulate_def Let_def
  by (simp add: example_pipeline_def frame_count_def upt_rec example_residuals
      get_column_def random_normal_def stretch_def broadcast_width_def vec_op_mat_def
      example_draws_def example_simulation_def)



lemma simulate_Inr:
  assumes "simulate self mp far_out num_simulations grp epsilon z = Inr L"
  obtains mean_pred residuals mean_residual residual_std w where
    "pipeline_predict mp (v_forecast_times L) grp = Inr mean_pred"
    "predict self (map Num (v_num_out L)) [Arr (map real (v_num_obs L))] = Inr residuals"
    "get_column residuals ''residual_mean'' = Inr mean_residual"
    "get_column residuals ''residual_std'' = Inr residual_std"
    "sequence_results (map (floor_std epsilon) residual_std) = Inr (v_std_residual L)"
    "random_normal z mean_residual (v_std_residual L) num_simulations far_out = Inr (v_error L)"
    "broadcast_width (length mean_pred) (nat far_out) = Inr w"
    "v_mean_pred L = mean_pred" "v_residuals L = residuals"
    "v_forecast_data L = vec_op_mat (+) w mean_pred (vec_op_mat (*) w mean_pred (v_error L))"
    "v_observations L = map col_obs_compare (filter (\<lambda>r. col_group r = grp) (all_data mp))"
    "v_max_t L = series_max (map col_t (filter (\<lambda>r. col_group r = grp) (all_data mp)))"
    "v_num_out L = map (\<lambda>k. real k + 1) [0..<nat far_out]"
    "v_forecast_times L = map (\<lambda>k. map_option (\<lambda>t. t + k) (v_max_t L)) (v_num_out L)"
    "v_all_times L = map Some (map col_t (filter (\<lambda>r. col_group r = grp) (all_data mp)))
        @ v_forecast_times L"
    "v_new_observations L = v_observations L @ map Some (concat (v_forecast_data L))"
    "v_simulated_flag L =
        replicate (length (v_observations L)) 0 @ replicate (length (v_forecast_data L)) 1"
  using assms unfolding simulate_def Let_def and_then_Inr_iff
  by (elim exE conjE) (simp, force)

lemma floor_std_results:
  "sequence_results (map (floor_std epsilon) col) = Inr ss \<Longrightarrow>
     \<exists>xs. col = map Num xs \<and> ss = map (\<lambda>x. max x epsilon) xs"
proof (induction col arbitrary: ss)
  case Nil
  then show ?case by simp
next
  case (Cons c col)
  from Cons.prems obtain x where c: "c = Num x"
    by (cases c) simp_all
  from Cons.prems c obtain ss' where
    ss': "sequence_results (map (floor_std epsilon) col) = Inr ss'"
    and ss: "ss = (if epsilon > x then epsilon else x) # ss'"
    by (auto split: sum.splits)
  from Cons.IH [OF ss'] obtain xs where "col = map Num xs" "ss' = map (\<lambda>x. max x epsilon) xs"
    by blast
  with c ss have "c # col = map Num (x # xs)" "ss = map (\<lambda>x. max x epsilon) (x # xs)"
    by (simp_all add: max_def)
  then show ?case by (intro exI [where x = "x # xs"] conjI)
qed

lemma length_stretch: "length (stretch w xs) = w"
  by (simp add: stretch_def)

lemma stretch_same: "length xs = w \<Longrightarrow> stretch w xs = xs"
  by (simp add: stretch_def)

lemma relative_noise_row:
  "map2 (+) (stretch w v) (stretch w (map2 (*) (stretch w v) (stretch w row))) =
     map2 (\<lambda>m e. m + m * e) (stretch w v) (stretch w row)"
  for v row :: "real list"
proof -
  have eq: "stretch w (map2 (*) (stretch w v) (stretch w row)) =
      map2 (*) (stretch w v) (stretch w row)"
    by (rule stretch_same) (simp add: length_stretch)
  have sum: "map2 (+) a (map2 (*) a b) = map2 (\<lambda>m e. m + m * e) a b"
    if "length a = length b" for a b :: "real list"
    using that by (induction a b rule: list_induct2) simp_all
  from sum [of "stretch w v" "stretch w row"] show ?thesis
    unfolding eq by (simp add: length_stretch)
qed

lemma zero_mean_row:
  "length a = length b \<Longrightarrow> list_all2 (\<lambda>m f. m = 0 \<longrightarrow> f = 0) a (map2 (\<lambda>m e. m + m * e) a b)"
  for a b :: "real list"
  by (induction a b rule: list_induct2) simp_all

subsection \<open>simulate on a group without rows: helper lemmas\<close>
















subsection \<open>Claims\<close>

text \<open>
  Claim C1. With both regressions fitted (coefficients for the intercept and every
  covariate, covariates among the columns of the grid), \<^verbatim>\<open>Forecaster.predict\<close>
  returns a grid with \<open>length far_out * length num_data\<close> rows, one per pair of the
  Cartesian product with \<open>far_out\<close> in the outer loop, whose \<open>residual_mean\<close> column
  holds the mean regression's value and whose \<open>residual_std\<close> column the std
  regression's value at each row. The witness is the specification's example: distances
  1, 2, 3 and the single amount 10 give three rows, amount 10 in each, distances 1, 2, 3
  in that order.
\<close>

theorem predict_grid:
  assumes mean: "mean_residual_model self = Some mean_model"
    and std: "std_residual_model self = Some std_model"
    and cm: "coef mean_model = Some cm" "length cm = Suc (length (covariates mean_model))"
    and cs: "coef std_model = Some cs" "length cs = Suc (length (covariates std_model))"
    and covm: "set (covariates mean_model) \<subseteq> {''far_out'', ''num_data'', ''intercept''}"
    and covs: "set (covariates std_model) \<subseteq> {''far_out'', ''num_data'', ''intercept''}"
  shows "\<exists>grid. predict self (map Num far_out) (map Num num_data) = Inr grid
      \<and> nrows grid = length far_out * length num_data
      \<and> grid =
        [(''far_out'', map (\<lambda>(d, a). Num d) (List.product far_out num_data)),
         (''num_data'', map (\<lambda>(d, a). Num a) (List.product far_out num_data)),
         (''intercept'', map (\<lambda>(d, a). Num 1) (List.product far_out num_data)),
         (''residual_mean'',
            map (\<lambda>(d, a). Num (regression_value (covariates mean_model) cm d a))
              (List.product far_out num_data)),
         (''residual_std'',
            map (\<lambda>(d, a). Num (regression_value (covariates std_model) cs d a))
              (List.product far_out num_data))]"
proof -
  let ?P = "List.product far_out num_data"
  let ?F = "map (\<lambda>p. Num (fst p)) ?P" and ?D = "map (\<lambda>p. Num (snd p)) ?P"
  let ?I = "replicate (length far_out * length num_data) (Num 1)"
  let ?M = "map (\<lambda>p. Num (regression_value (covariates mean_model) cm (fst p) (snd p))) ?P"
  let ?S = "map (\<lambda>p. Num (regression_value (covariates std_model) cs (fst p) (snd p))) ?P"
  let ?new_data = "[(''far_out'', ?F), (''num_data'', ?D)]"
  let ?df1 = "[(''far_out'', ?F), (''num_data'', ?D), (''intercept'', ?I)]"
  let ?df2 = "[(''far_out'', ?F), (''num_data'', ?D), (''intercept'', ?I), (''residual_mean'', ?M)]"
  have rows: "List.product (map Num far_out) (map Num num_data) = map (\<lambda>p. (Num (fst p), Num (snd p))) ?P"
    by (rule product_map_Num)
  have new_data: "[(''far_out'', map fst (List.product (map Num far_out) (map Num num_data))),
      (''num_data'', map snd (List.product (map Num far_out) (map Num num_data)))] = ?new_data"
    unfolding rows by (simp add: comp_def)
  have step1: "LinearResidualModel_predict mean_model ?new_data = (Inr ?M, ?df1)"
    using LinearResidualModel_predict_grid [OF cm covm, of ?new_data ?P]
    by (simp add: nrows_def)
  have df2: "set_column ''residual_mean'' ?M ?df1 = ?df2"
    by simp
  have step2: "LinearResidualModel_predict std_model ?df2 = (Inr ?S, ?df2)"
    using LinearResidualModel_predict_grid [OF cs covs, of ?df2 ?P]
    by (simp add: nrows_def)
  have final: "predict self (map Num far_out) (map Num num_data) =
      Inr [(''far_out'', ?F), (''num_data'', ?D), (''intercept'', ?I), (''residual_mean'', ?M),
           (''residual_std'', ?S)]"
    unfolding predict_def Let_def new_data
    by (simp add: mean std step1 df2 step2)
  show ?thesis
    unfolding final
    by (simp add: nrows_def case_prod_unfold map_replicate_const)
qed

theorem predict_grid_witness:
  "predict example_forecaster (map Num [1, 2, 3]) (map Num [10]) =
     Inr [(''far_out'', [Num 1, Num 2, Num 3]),
          (''num_data'', [Num 10, Num 10, Num 10]),
          (''intercept'', [Num 1, Num 1, Num 1]),
          (''residual_mean'', [Num 33, Num 35, Num 37]),
          (''residual_std'', [Num 1, Num 1, Num 1])]"
proof -
  have h1: "mean_residual_model example_forecaster = Some example_mean_model"
    and h2: "std_residual_model example_forecaster = Some example_std_model"
    by (simp_all add: example_forecaster_def)
  have h3: "coef example_mean_model = Some [1, 2, 3]"
    and h4: "length [1, 2, 3 :: real] = Suc (length (covariates example_mean_model))"
    and h5: "set (covariates example_mean_model) \<subseteq> {''far_out'', ''num_data'', ''intercept''}"
    by (simp_all add: example_mean_model_def)
  have h6: "coef example_std_model = Some [0, 1 / 10]"
    and h7: "length [0, 1 / 10 :: real] = Suc (length (covariates example_std_model))"
    and h8: "set (covariates example_std_model) \<subseteq> {''far_out'', ''num_data'', ''intercept''}"
    by (simp_all add: example_std_model_def)
  from predict_grid [OF h1 h2 h3 h4 h6 h7 h5 h8, of "[1, 2, 3]" "[10]"]
  show ?thesis
    by (simp add: regression_value_def grid_value_def dot_def example_mean_model_def
        example_std_model_def)
qed

text \<open>
  Claim C10. \<^verbatim>\<open>LinearResidualModel.predict\<close> changes the frame it is given: after
  the call, whatever its outcome, the frame has an \<open>intercept\<close> column of ones. The
  grid \<^verbatim>\<open>Forecaster.predict\<close> returns therefore has the five columns
  \<open>far_out\<close>, \<open>num_data\<close>, \<open>intercept\<close>, \<open>residual_mean\<close>, \<open>residual_std\<close>, the
  third holding 1 in every row.
\<close>

theorem predict_adds_intercept:
  "snd (LinearResidualModel_predict m df) =
      set_column ''intercept'' (replicate (nrows df) (Num 1)) df
   \<and> map_of (snd (LinearResidualModel_predict m df)) ''intercept'' =
      Some (replicate (nrows df) (Num 1))
   \<and> (predict self far_out num_data = Inr grid \<longrightarrow>
        map fst grid = [''far_out'', ''num_data'', ''intercept'', ''residual_mean'', ''residual_std'']
        \<and> map_of grid ''intercept'' = Some (replicate (length far_out * length num_data) (Num 1)))"
proof (intro conjI impI)
  show frame: "snd (LinearResidualModel_predict m df) =
      set_column ''intercept'' (replicate (nrows df) (Num 1)) df"
    by (simp add: LinearResidualModel_predict_def Let_def)
  show "map_of (snd (LinearResidualModel_predict m df)) ''intercept'' =
      Some (replicate (nrows df) (Num 1))"
    unfolding frame by (rule map_of_set_column_same)
next
  assume ok: "predict self far_out num_data = Inr grid"
  let ?rows = "List.product far_out num_data"
  let ?new_data = "[(''far_out'', map fst ?rows), (''num_data'', map snd ?rows)]"
  let ?I = "replicate (length far_out * length num_data) (Num 1)"
  from ok obtain mean_model where mean: "mean_residual_model self = Some mean_model"
    by (cases "mean_residual_model self") (simp_all add: predict_def Let_def)
  obtain r1 df1 where p1: "LinearResidualModel_predict mean_model ?new_data = (r1, df1)"
    by (cases "LinearResidualModel_predict mean_model ?new_data")
  have df1: "df1 = [(''far_out'', map fst ?rows), (''num_data'', map snd ?rows), (''intercept'', ?I)]"
    using LinearResidualModel_predict_frame [OF p1] by (simp add: nrows_def)
  from ok mean p1 obtain residual_mean where r1: "r1 = Inr residual_mean"
    by (cases r1) (simp_all add: predict_def Let_def)
  let ?df2 = "set_column ''residual_mean'' residual_mean df1"
  have df2: "?df2 = [(''far_out'', map fst ?rows), (''num_data'', map snd ?rows), (''intercept'', ?I),
      (''residual_mean'', residual_mean)]"
    unfolding df1 by simp
  from ok mean p1 r1 obtain std_model where std: "std_residual_model self = Some std_model"
    by (cases "std_residual_model self") (simp_all add: predict_def Let_def)
  obtain r2 df3 where p2: "LinearResidualModel_predict std_model ?df2 = (r2, df3)"
    by (cases "LinearResidualModel_predict std_model ?df2")
  have df3: "df3 = ?df2"
    using LinearResidualModel_predict_frame [OF p2] unfolding df2 by (simp add: nrows_def)
  from ok mean p1 r1 std p2 obtain residual_std where r2: "r2 = Inr residual_std"
    by (cases r2) (simp_all add: predict_def Let_def)
  from ok mean p1 r1 std p2 r2 have grid: "grid = set_column ''residual_std'' residual_std df3"
    by (simp add: predict_def Let_def)
  show "map fst grid = [''far_out'', ''num_data'', ''intercept'', ''residual_mean'', ''residual_std'']"
    unfolding grid df3 df2 by simp
  show "map_of grid ''intercept'' = Some ?I"
    unfolding grid df3 df2 by simp
qed


theorem predict_adds_intercept_witness:
  "predict example_forecaster (map Num [1, 2, 3]) (map Num [10]) = Inr example_grid
   \<and> map fst example_grid =
       [''far_out'', ''num_data'', ''intercept'', ''residual_mean'', ''residual_std'']
   \<and> map_of example_grid ''intercept'' = Some [Num 1, Num 1, Num 1]
   \<and> snd (LinearResidualModel_predict example_mean_model
          [(''far_out'', [Num 1]), (''num_data'', [Num 10])]) =
       [(''far_out'', [Num 1]), (''num_data'', [Num 10]), (''intercept'', [Num 1])]"
  using predict_adds_intercept [of example_mean_model
      "[(''far_out'', [Num 1]), (''num_data'', [Num 10])]" example_forecaster
      "map Num [1, 2, 3]" "map Num [10]" example_grid]
    example_predict
  by (simp add: nrows_def)

text \<open>
  Claim C7. For every model type other than \<open>linear\<close>, \<^verbatim>\<open>fit_residuals\<close> raises
  its configuration error (\<^verbatim>\<open>ValueError\<close>) and the forecaster is what it was
  before the call: no model has been stored, and a fresh forecaster still has both models
  unset.
\<close>

theorem fit_residuals_unknown_model_type:
  "residual_model_type \<noteq> ''linear'' \<Longrightarrow>
     fit_residuals linalg_inv self residual_data mean_col std_col residual_covariates
       residual_model_type = (Inl ValueError, self)
     \<and> mean_residual_model (snd (fit_residuals linalg_inv Forecaster_init residual_data
          mean_col std_col residual_covariates residual_model_type)) = None
     \<and> std_residual_model (snd (fit_residuals linalg_inv Forecaster_init residual_data
          mean_col std_col residual_covariates residual_model_type)) = None"
  by (simp add: fit_residuals_def Forecaster_init_def)

theorem fit_residuals_unknown_model_type_witness:
  "''unsupported'' \<noteq> ''linear''
   \<and> fit_residuals (\<lambda>m. Inr m) example_forecaster [(''far_out'', [1, 2])] ''residual_mean''
        ''residual_std'' [''far_out''] ''unsupported'' = (Inl ValueError, example_forecaster)
   \<and> mean_residual_model (snd (fit_residuals (\<lambda>m. Inr m) Forecaster_init
        [(''far_out'', [1, 2])] ''residual_mean'' ''residual_std'' [''far_out'']
        ''unsupported'')) = None
   \<and> std_residual_model (snd (fit_residuals (\<lambda>m. Inr m) Forecaster_init
        [(''far_out'', [1, 2])] ''residual_mean'' ''residual_std'' [''far_out'']
        ''unsupported'')) = None"
  using fit_residuals_unknown_model_type [of "''unsupported''" "\<lambda>m. Inr m"
      example_forecaster "[(''far_out'', [1, 2])]" "''residual_mean''" "''residual_std''"
      "[''far_out'']"]
  by simp

text \<open>
  Claim C4. Whenever \<^verbatim>\<open>simulate\<close> reaches the sampler, every predicted
  \<open>residual_std\<close> is a number, the scale handed to the sampler is the elementwise
  maximum of the prediction and \<open>epsilon\<close>, and so no scale is below \<open>epsilon\<close>.
\<close>

theorem simulate_std_floor:
  assumes "simulate self mp far_out num_simulations grp epsilon z = Inr L"
  shows "\<exists>predicted_std mean_residual.
      get_column (v_residuals L) ''residual_std'' = Inr (map Num predicted_std)
      \<and> v_std_residual L = map (\<lambda>x. max x epsilon) predicted_std
      \<and> list_all (\<lambda>s. epsilon \<le> s) (v_std_residual L)
      \<and> random_normal z mean_residual (v_std_residual L) num_simulations far_out =
          Inr (v_error L)"
proof -
  from assms obtain mean_residual residual_std where
    col: "get_column (v_residuals L) ''residual_std'' = Inr residual_std"
    and fl: "sequence_results (map (floor_std epsilon) residual_std) = Inr (v_std_residual L)"
    and rn: "random_normal z mean_residual (v_std_residual L) num_simulations far_out =
      Inr (v_error L)"
    by (elim simulate_Inr) simp
  from floor_std_results [OF fl] obtain xs where
    xs: "residual_std = map Num xs" "v_std_residual L = map (\<lambda>x. max x epsilon) xs"
    by blast
  have "list_all (\<lambda>s. epsilon \<le> s) (v_std_residual L)"
    unfolding xs by (simp add: list_all_iff)
  with col xs rn show ?thesis by blast
qed

theorem simulate_std_floor_witness:
  "simulate example_forecaster_far_out example_pipeline 3 2 ''A'' (1 / 1000) example_draws =
      Inr example_simulation
   \<and> get_column (v_residuals example_simulation) ''residual_std'' =
      Inr (map Num [1 / 4, 0, - (1 / 4)])
   \<and> v_std_residual example_simulation = [1 / 4, 1 / 1000, 1 / 1000]
   \<and> list_all (\<lambda>s. 1 / 1000 \<le> s) (v_std_residual example_simulation)"
  using simulate_std_floor [OF example_simulate] example_simulate
  by (simp add: example_simulation_def get_column_def)

text \<open>
  Claim C5. Every simulated value is \<open>m + m * e\<close>, for the mean forecast \<open>m\<close> and the
  noise sample \<open>e\<close> at that point (both broadcast to the common width, which changes
  nothing when the forecast has one value per step): the noise is relative. Hence where
  the mean forecast is zero the simulated value is zero, for every noise.
\<close>

theorem simulate_relative_noise:
  assumes "simulate self mp far_out num_simulations grp epsilon z = Inr L"
  shows "\<exists>w. broadcast_width (length (v_mean_pred L)) (nat far_out) = Inr w
      \<and> v_forecast_data L =
          map (\<lambda>noise. map2 (\<lambda>m e. m + m * e) (stretch w (v_mean_pred L)) (stretch w noise))
            (v_error L)
      \<and> list_all (\<lambda>row. list_all2 (\<lambda>m f. m = 0 \<longrightarrow> f = 0) (stretch w (v_mean_pred L)) row)
          (v_forecast_data L)
      \<and> (length (v_mean_pred L) = nat far_out \<longrightarrow> stretch w (v_mean_pred L) = v_mean_pred L)"
proof -
  from assms obtain w where
    w: "broadcast_width (length (v_mean_pred L)) (nat far_out) = Inr w"
    and fd: "v_forecast_data L =
      vec_op_mat (+) w (v_mean_pred L) (vec_op_mat (*) w (v_mean_pred L) (v_error L))"
    by (elim simulate_Inr) simp
  have formula: "v_forecast_data L =
      map (\<lambda>noise. map2 (\<lambda>m e. m + m * e) (stretch w (v_mean_pred L)) (stretch w noise))
        (v_error L)"
    unfolding fd vec_op_mat_def by (simp add: comp_def relative_noise_row)
  have zero: "list_all (\<lambda>row. list_all2 (\<lambda>m f. m = 0 \<longrightarrow> f = 0) (stretch w (v_mean_pred L)) row)
      (v_forecast_data L)"
    unfolding formula by (simp add: list_all_iff zero_mean_row length_stretch)
  have same: "length (v_mean_pred L) = nat far_out \<longrightarrow> stretch w (v_mean_pred L) = v_mean_pred L"
    using w by (auto simp: broadcast_width_def stretch_def)
  from w formula zero same show ?thesis by blast
qed


theorem simulate_relative_noise_witness:
  "simulate example_forecaster_far_out example_pipeline 3 2 ''A'' (1 / 1000) example_draws =
      Inr example_simulation
   \<and> broadcast_width (length (v_mean_pred example_simulation)) (nat 3) = Inr 3
   \<and> v_mean_pred example_simulation = [0, 10, 10]
   \<and> v_error example_simulation =
        [[7 / 20, 201 / 1000, 301 / 1000], [7 / 20, 201 / 1000, 301 / 1000]]
   \<and> v_forecast_data example_simulation =
        [[0, 1201 / 100, 1301 / 100], [0, 1201 / 100, 1301 / 100]]"
  using simulate_relative_noise [OF example_simulate] example_simulate
  by (simp add: example_simulation_def broadcast_width_def)




text \<open>
  Claim C2, evaluated. With two observed rows, three steps ahead and two simulations, a
  trajectory table should have \<open>2 + 3\<close> rows, the last three flagged. The columns the
  code builds for every table have different lengths: five times, eight observations
  (the two draws flattened one after the other), and four flags of which only two, the
  number of simulations, are 1.
\<close>

theorem simulate_columns_example:
  "simulate example_forecaster_far_out example_pipeline 3 2 ''A'' (1 / 1000) example_draws =
      Inr example_simulation
   \<and> length (v_observations example_simulation) = 2
   \<and> length (v_all_times example_simulation) = 5
   \<and> length (v_new_observations example_simulation) = 8
   \<and> v_simulated_flag example_simulation = [0, 0, 1, 1]"
  by (simp add: example_simulate) (simp add: example_simulation_def)

text \<open>
  Claim C6, evaluated. Group \<open>A\<close> has an observation at time 1 and a row without
  observation at time 2. \<^verbatim>\<open>simulate\<close> takes \<open>max_t = 2\<close>, the maximum over all
  rows, where \<^verbatim>\<open>get_max_t_per_group\<close> gives 1, the maximum over the observed rows;
  and \<open>num_obs\<close> is the Series of the four column counts where
  \<^verbatim>\<open>get_num_obs_per_group\<close> gives the number 1, so that the \<open>num_data\<close> cells of
  the grid are arrays.
\<close>

theorem simulate_max_t_num_obs_example:
  "simulate example_forecaster_far_out example_pipeline 3 2 ''A'' (1 / 1000) example_draws =
      Inr example_simulation
   \<and> v_max_t example_simulation = Some 2
   \<and> get_max_t_per_group (all_data example_pipeline) ''A'' = Some 1
   \<and> v_num_obs example_simulation = [1, 1, 1, 1]
   \<and> get_num_obs_per_group (all_data example_pipeline) ''A'' = Some 1
   \<and> get_column (v_residuals example_simulation) ''num_data'' =
        Inr [Arr [1, 1, 1, 1], Arr [1, 1, 1, 1], Arr [1, 1, 1, 1]]"
  by (simp add: example_simulate)
    (simp add: example_simulation_def example_pipeline_def get_max_t_per_group_def
      get_num_obs_per_group_def get_column_def)

end
